theory Spec2Isabelle
  imports Complex_Main
begin

section \<open>Numbers and vectors\<close>

text \<open>
  The program is Python. Its \<^verbatim>\<open>float\<close> values are modelled as mathematical reals
  (no rounding, no infinities, no NaN) and its \<^verbatim>\<open>int\<close> values as \<open>int\<close>; the one
  place where the rounding is modelled is the accumulator of the main loop, whose tick
  counts depend on it (\<open>fl\<close>, \<open>drain64\<close> and \<open>main_frame64\<close> below). A
  \<^verbatim>\<open>pygame.Vector2\<close> is a record of two reals; every assignment in the source that
  could share a vector makes a copy (\<^verbatim>\<open>state.pos.copy()\<close>, component-wise stores), so
  vectors are values here.
\<close>

record vec2 =
  vec_x :: real
  vec_y :: real

datatype py_error = ValueError

text \<open>\<^verbatim>\<open>Vector2.length_squared\<close>, \<^verbatim>\<open>Vector2.normalize\<close> (raises \<^verbatim>\<open>ValueError\<close> on a
  vector of length zero), \<^verbatim>\<open>Vector2 * float\<close> and \<^verbatim>\<open>Vector2.lerp\<close> (raises
  \<^verbatim>\<open>ValueError\<close> when the factor is outside [0, 1]) of the pygame library.\<close>

definition length_squared :: "vec2 \<Rightarrow> real" where
  "length_squared v = vec_x v * vec_x v + vec_y v * vec_y v"

definition normalize :: "vec2 \<Rightarrow> py_error + vec2" where
  "normalize v =
     (let l = sqrt (length_squared v)
      in if l = 0 then Inl ValueError
         else Inr \<lparr>vec_x = vec_x v / l, vec_y = vec_y v / l\<rparr>)"

definition scale :: "vec2 \<Rightarrow> real \<Rightarrow> vec2" where
  "scale v k = \<lparr>vec_x = vec_x v * k, vec_y = vec_y v * k\<rparr>"

definition vec_lerp :: "vec2 \<Rightarrow> vec2 \<Rightarrow> real \<Rightarrow> py_error + vec2" where
  "vec_lerp a b t =
     (if t < 0 \<or> t > 1 then Inl ValueError
      else Inr \<lparr>vec_x = vec_x a * (1 - t) + vec_x b * t,
                vec_y = vec_y a * (1 - t) + vec_y b * t\<rparr>)"

text \<open>Python's \<^verbatim>\<open>int(x)\<close> truncates towards zero; \<^verbatim>\<open>round(x)\<close> rounds to the nearest
  integer, a tie going to the even one.\<close>

definition py_int :: "real \<Rightarrow> int" where
  "py_int x = (if 0 \<le> x then \<lfloor>x\<rfloor> else \<lceil>x\<rceil>)"

definition py_round :: "real \<Rightarrow> int" where
  "py_round x =
     (let f = \<lfloor>x\<rfloor>; d = x - real_of_int f
      in if d < 1 / 2 then f
         else if 1 / 2 < d then f + 1
         else if even f then f else f + 1)"

section \<open>config.py\<close>

type_synonym color = "int \<times> int \<times> int"

definition CANVAS_MARGIN :: int where "CANVAS_MARGIN = 12"
definition BALL_RADIUS :: int where "BALL_RADIUS = 14"
definition BALL_SPEED_PX_S :: real where "BALL_SPEED_PX_S = 700"
definition GLOW_DURATION_S :: real where "GLOW_DURATION_S = 1 / 2"
definition TARGET_SIZE_PCT_DEFAULT :: int where "TARGET_SIZE_PCT_DEFAULT = 165"
definition TARGET_SIZE_PCT_MIN :: int where "TARGET_SIZE_PCT_MIN = 120"
definition TARGET_SIZE_PCT_MAX :: int where "TARGET_SIZE_PCT_MAX = 500"
definition TARGET_SPEED_PX_S_DEFAULT :: int where "TARGET_SPEED_PX_S_DEFAULT = 170"
definition TARGET_SPEED_PX_S_MIN :: int where "TARGET_SPEED_PX_S_MIN = 60"
definition TARGET_SPEED_PX_S_MAX :: int where "TARGET_SPEED_PX_S_MAX = 420"
definition TARGET_FLASH_DURATION_S :: real where "TARGET_FLASH_DURATION_S = 35 / 100"
definition RELAXED_DEADZONE :: real where "RELAXED_DEADZONE = 16 / 100"
definition UNRELAXED_DEADZONE :: real where "UNRELAXED_DEADZONE = 0"
definition BALL_BASE_COLOR :: color where "BALL_BASE_COLOR = (235, 235, 235)"

definition BUTTON_COLORS :: "(int \<times> color) list" where
  "BUTTON_COLORS =
     [(0, (80, 160, 255)), (1, (255, 90, 90)), (2, (255, 110, 255)),
      (3, (120, 255, 130)), (4, (180, 200, 255)), (5, (90, 255, 255)),
      (6, (255, 210, 90)), (15, (200, 190, 255)), (7, (185, 135, 255)),
      (8, (125, 255, 225)), (9, (255, 150, 80)), (10, (220, 255, 90)),
      (16, (255, 120, 190)), (17, (120, 190, 255)), (11, (130, 175, 255)),
      (12, (255, 130, 175)), (13, (175, 255, 130)), (14, (255, 175, 130))]"

definition BUTTON_COLOR_PALETTE :: "color list" where
  "BUTTON_COLOR_PALETTE =
     [(80, 160, 255), (255, 90, 90), (255, 110, 255), (120, 255, 130),
      (255, 210, 90), (90, 255, 255), (255, 150, 80), (220, 255, 90),
      (185, 135, 255), (125, 255, 225), (180, 200, 255), (200, 190, 255),
      (255, 130, 175), (130, 175, 255), (175, 255, 130), (255, 175, 130)]"

definition get_button_color :: "int \<Rightarrow> color" where
  "get_button_color button_index =
     (case map_of BUTTON_COLORS button_index of
        Some c \<Rightarrow> c
      | None \<Rightarrow>
          if BUTTON_COLOR_PALETTE \<noteq> []
          then BUTTON_COLOR_PALETTE ! nat (button_index mod int (length BUTTON_COLOR_PALETTE))
          else (235, 235, 235))"

section \<open>util.py\<close>

definition clamp :: "real \<Rightarrow> real \<Rightarrow> real \<Rightarrow> real" where
  "clamp x lo hi = (if x < lo then lo else if x > hi then hi else x)"

definition distance_sq :: "real \<Rightarrow> real \<Rightarrow> real \<Rightarrow> real \<Rightarrow> real" where
  "distance_sq x0 y0 x1 y1 =
     (let dx = x1 - x0; dy = y1 - y0 in dx * dx + dy * dy)"

definition apply_deadzone :: "real \<Rightarrow> real \<Rightarrow> real" where
  "apply_deadzone v deadzone =
     (if \<bar>v\<bar> \<le> deadzone then 0
      else let s = (if v > 0 then 1 else - 1);
               v' = (if deadzone < 1 then (\<bar>v\<bar> - deadzone) / (1 - deadzone) else 0)
           in s * clamp v' 0 1)"

section \<open>simulation.py\<close>

record BallVisual =
  active_blink_color :: color
  glow_elapsed :: real

record TargetState =
  enabled :: bool
  t_pos :: vec2
  t_vel :: vec2
  size_pct :: int
  speed_px_s :: int
  radius_px :: int
  hit_flash_elapsed :: real

record EngineState =
  pos :: vec2
  prev_pos :: vec2
  ball_radius :: int
  ball_speed :: real
  visual :: BallVisual
  target :: TargetState

text \<open>The fields \<^verbatim>\<open>TargetState.pos\<close> and \<^verbatim>\<open>TargetState.vel\<close> are named \<open>t_pos\<close> and
  \<open>t_vel\<close>, since \<open>pos\<close> is the field of \<open>EngineState\<close>.\<close>

definition engine_step ::
  "EngineState \<Rightarrow> real \<Rightarrow> int \<Rightarrow> int \<Rightarrow> int \<Rightarrow> real \<Rightarrow> real \<Rightarrow> int list \<Rightarrow> bool
     \<Rightarrow> (real \<times> real) option \<Rightarrow> EngineState" where
  "engine_step state dt w h margin stick_lx stick_ly button_down_edges any_button_edge
       ball_override_pos =
     (let s1 = state\<lparr>prev_pos := pos state\<rparr>;
          p = (case ball_override_pos of
                 None \<Rightarrow> \<lparr>vec_x = vec_x (pos s1) + (stick_lx * ball_speed s1) * dt,
                          vec_y = vec_y (pos s1) + (stick_ly * ball_speed s1) * dt\<rparr>
               | Some ov \<Rightarrow> \<lparr>vec_x = fst ov, vec_y = snd ov\<rparr>);
          br = ball_radius s1;
          s2 = s1\<lparr>pos :=
                 \<lparr>vec_x = clamp (vec_x p) (real_of_int (margin + br)) (real_of_int (w - margin - br)),
                  vec_y = clamp (vec_y p) (real_of_int (margin + br)) (real_of_int (h - margin - br))\<rparr>\<rparr>;
          g = glow_elapsed (visual s2);
          g' = (if g < GLOW_DURATION_S
                then (if g + dt > GLOW_DURATION_S then GLOW_DURATION_S else g + dt)
                else g);
          s3 = s2\<lparr>visual := (visual s2)\<lparr>glow_elapsed := g'\<rparr>\<rparr>;
          s4 = s3\<lparr>visual :=
                 foldl (\<lambda>v b. v\<lparr>active_blink_color := get_button_color b, glow_elapsed := 0\<rparr>)
                   (visual s3) button_down_edges\<rparr>
      in if enabled (target s4) then
           let t = target s4;
               px = vec_x (t_pos t) + vec_x (t_vel t) * dt;
               py = vec_y (t_pos t) + vec_y (t_vel t) * dt;
               tr = radius_px t;
               min_tx = real_of_int (margin + tr);
               max_tx = real_of_int (w - margin - tr);
               min_ty = real_of_int (margin + tr);
               max_ty = real_of_int (h - margin - tr);
               xs = (if px < min_tx then (min_tx, \<bar>vec_x (t_vel t)\<bar>)
                     else if px > max_tx then (max_tx, - \<bar>vec_x (t_vel t)\<bar>)
                     else (px, vec_x (t_vel t)));
               ys = (if py < min_ty then (min_ty, \<bar>vec_y (t_vel t)\<bar>)
                     else if py > max_ty then (max_ty, - \<bar>vec_y (t_vel t)\<bar>)
                     else (py, vec_y (t_vel t)));
               f = hit_flash_elapsed t;
               f' = (if f < TARGET_FLASH_DURATION_S
                     then (if f + dt > TARGET_FLASH_DURATION_S then TARGET_FLASH_DURATION_S
                           else f + dt)
                     else f);
               f'' = (if any_button_edge then
                        let inner = max 0 (real_of_int (tr - br));
                            d2 = distance_sq (vec_x (pos s4)) (vec_y (pos s4)) (fst xs) (fst ys)
                        in if d2 \<le> inner * inner then 0 else f'
                      else f')
           in s4\<lparr>target := t\<lparr>t_pos := \<lparr>vec_x = fst xs, vec_y = fst ys\<rparr>,
                               t_vel := \<lparr>vec_x = snd xs, vec_y = snd ys\<rparr>,
                               hit_flash_elapsed := f''\<rparr>\<rparr>
         else s4)"

definition compute_radius :: "TargetState \<Rightarrow> int \<Rightarrow> int" where
  "compute_radius t br = py_round (real_of_int br * (real_of_int (size_pct t) / 100))"

text \<open>The three lines shared by \<^verbatim>\<open>set_params\<close> and \<^verbatim>\<open>reset\<close>:
  \<^verbatim>\<open>if self.vel.length_squared() < 1e-9: self.vel.update(1.0, 0.0)\<close> followed by
  \<^verbatim>\<open>self.vel = self.vel.normalize() * float(self.speed_px_s)\<close>.\<close>

definition reseed_and_scale :: "vec2 \<Rightarrow> int \<Rightarrow> py_error + vec2" where
  "reseed_and_scale v speed =
     (let v' = (if length_squared v < 1 / 10 ^ 9 then \<lparr>vec_x = 1, vec_y = 0\<rparr> else v)
      in case normalize v' of
           Inl e \<Rightarrow> Inl e
         | Inr n \<Rightarrow> Inr (scale n (real_of_int speed)))"

definition set_params :: "TargetState \<Rightarrow> int \<Rightarrow> int \<Rightarrow> int \<Rightarrow> py_error + TargetState" where
  "set_params t br new_size_pct new_speed_px_s =
     (let t1 = t\<lparr>size_pct := py_int (clamp (real_of_int new_size_pct)
                     (real_of_int TARGET_SIZE_PCT_MIN) (real_of_int TARGET_SIZE_PCT_MAX))\<rparr>;
          t2 = t1\<lparr>speed_px_s := py_int (clamp (real_of_int new_speed_px_s)
                     (real_of_int TARGET_SPEED_PX_S_MIN) (real_of_int TARGET_SPEED_PX_S_MAX))\<rparr>;
          t3 = t2\<lparr>radius_px := compute_radius t2 br\<rparr>
      in case reseed_and_scale (t_vel t3) (speed_px_s t3) of
           Inl e \<Rightarrow> Inl e
         | Inr v \<Rightarrow> Inr (t3\<lparr>t_vel := v\<rparr>))"

text \<open>\<^verbatim>\<open>reset\<close> draws \<^verbatim>\<open>random.random()\<close>; the number drawn is the argument \<open>rnd\<close>.\<close>

definition reset :: "TargetState \<Rightarrow> int \<Rightarrow> int \<Rightarrow> int \<Rightarrow> int \<Rightarrow> real \<Rightarrow> py_error + TargetState" where
  "reset t w h margin br rnd =
     (let t1 = t\<lparr>radius_px := compute_radius t br\<rparr>;
          t2 = t1\<lparr>t_pos := \<lparr>vec_x = real_of_int w * (65 / 100), vec_y = real_of_int h * (45 / 100)\<rparr>\<rparr>;
          ang = rnd * (2 * pi)
      in case reseed_and_scale \<lparr>vec_x = cos ang, vec_y = sin ang\<rparr> (speed_px_s t2) of
           Inl e \<Rightarrow> Inl e
         | Inr v \<Rightarrow>
             let t3 = t2\<lparr>t_vel := v, hit_flash_elapsed := TARGET_FLASH_DURATION_S\<rparr>;
                 tr = radius_px t3
             in Inr (t3\<lparr>t_pos :=
                      \<lparr>vec_x = clamp (vec_x (t_pos t3)) (real_of_int (margin + tr))
                                 (real_of_int (w - margin - tr)),
                       vec_y = clamp (vec_y (t_pos t3)) (real_of_int (margin + tr))
                                 (real_of_int (h - margin - tr))\<rparr>\<rparr>))"

text \<open>The field defaults of the dataclass \<^verbatim>\<open>TargetState\<close>, given \<open>enabled\<close>.\<close>

definition TargetState_default :: "bool \<Rightarrow> TargetState" where
  "TargetState_default en =
     \<lparr>enabled = en, t_pos = \<lparr>vec_x = 0, vec_y = 0\<rparr>, t_vel = \<lparr>vec_x = 1, vec_y = 0\<rparr>,
      size_pct = TARGET_SIZE_PCT_DEFAULT, speed_px_s = TARGET_SPEED_PX_S_DEFAULT,
      radius_px = 0, hit_flash_elapsed = TARGET_FLASH_DURATION_S\<rparr>"

definition make_initial_state :: "int \<Rightarrow> int \<Rightarrow> int \<Rightarrow> real \<Rightarrow> py_error + EngineState" where
  "make_initial_state w h margin rnd =
     (let r = BALL_RADIUS;
          p = \<lparr>vec_x = real_of_int w * (1 / 2), vec_y = real_of_int h * (1 / 2)\<rparr>
      in case set_params (TargetState_default False) r TARGET_SIZE_PCT_DEFAULT
                TARGET_SPEED_PX_S_DEFAULT of
           Inl e \<Rightarrow> Inl e
         | Inr t \<Rightarrow>
             (case reset t w h margin r rnd of
                Inl e \<Rightarrow> Inl e
              | Inr t' \<Rightarrow>
                  Inr \<lparr>pos = p, prev_pos = p, ball_radius = r, ball_speed = BALL_SPEED_PX_S,
                       visual = \<lparr>active_blink_color = BALL_BASE_COLOR,
                                 glow_elapsed = GLOW_DURATION_S\<rparr>,
                       target = t'\<rparr>))"

section \<open>input_devices.py\<close>

text \<open>
  The joystick is outside the program. A reading of it is \<open>None\<close> when no controller is
  active, and otherwise the values \<^verbatim>\<open>get_axis(i)\<close> and \<^verbatim>\<open>get_button(i)\<close> return at that
  moment, as two lists. \<^verbatim>\<open>axis_lx = 0\<close> and \<^verbatim>\<open>axis_ly = 1\<close> are fixed in
  \<^verbatim>\<open>ControllerManager.__init__\<close>.
\<close>

type_synonym joystick = "(real list \<times> bool list) option"

record ControllerSample =
  smp_lx :: real
  smp_ly :: real
  button_down_edges :: "int list"
  any_button_edge :: bool

definition read_axes :: "joystick \<Rightarrow> real \<Rightarrow> real \<times> real" where
  "read_axes joy deadzone =
     (case joy of
        None \<Rightarrow> (0, 0)
      | Some (axes, buttons) \<Rightarrow>
          if length axes > max 0 1
          then (apply_deadzone (axes ! 0) deadzone, apply_deadzone (axes ! 1) deadzone)
          else (0, 0))"

definition peek_axes :: "joystick \<Rightarrow> real \<Rightarrow> real \<times> real" where
  "peek_axes joy deadzone = read_axes joy deadzone"

text \<open>\<^verbatim>\<open>ControllerManager.sample\<close>: the sample, and the new \<^verbatim>\<open>_prev_buttons\<close>.\<close>

definition sample :: "joystick \<Rightarrow> bool list \<Rightarrow> real \<Rightarrow> ControllerSample \<times> bool list" where
  "sample joy prev_buttons deadzone =
     (case joy of
        None \<Rightarrow>
          (\<lparr>smp_lx = 0, smp_ly = 0, button_down_edges = [], any_button_edge = False\<rparr>,
           prev_buttons)
      | Some (axes, buttons) \<Rightarrow>
          let a = read_axes joy deadzone;
              nb = length buttons;
              prev = (if length prev_buttons \<noteq> nb then replicate nb False else prev_buttons);
              edges = map int (filter (\<lambda>i. buttons ! i \<and> \<not> prev ! i) [0..<nb])
          in (\<lparr>smp_lx = fst a, smp_ly = snd a, button_down_edges = edges,
               any_button_edge = (edges \<noteq> [])\<rparr>,
              buttons))"

section \<open>main.py: the loop\<close>

text \<open>
  What one engine tick reads from the outside: the mouse position and its three buttons
  (\<^verbatim>\<open>pygame.mouse.get_pos()\<close>, \<^verbatim>\<open>get_pressed(3)\<close>) and the joystick.
\<close>

record reading =
  mouse_pos :: "int \<times> int"
  mouse_pressed :: "bool list"
  joy :: joystick

text \<open>What the loop carries from tick to tick.\<close>

record sim =
  engine_state :: EngineState
  prev_mouse_buttons :: "bool list"
  ctrl_prev_buttons :: "bool list"

definition current_deadzone :: "bool \<Rightarrow> real" where
  "current_deadzone deadzone_relax =
     (if deadzone_relax then RELAXED_DEADZONE else UNRELAXED_DEADZONE)"

definition engine_dt :: "int \<Rightarrow> real" where
  "engine_dt engine_fps = 1 / real_of_int (max 1 engine_fps)"

text \<open>\<^verbatim>\<open>mapping = {0: 0, 2: 1, 1: 2}\<close>, read with \<^verbatim>\<open>mapping.get(idx, 0)\<close>.\<close>

definition mouse_mapping :: "nat \<Rightarrow> int" where
  "mouse_mapping idx = (if idx = 0 then 0 else if idx = 2 then 1 else if idx = 1 then 2 else 0)"

definition mouse_edges :: "bool list \<Rightarrow> bool list \<Rightarrow> int list" where
  "mouse_edges pressed prev =
     map mouse_mapping (filter (\<lambda>idx. pressed ! idx \<and> \<not> prev ! idx) [0..<3])"

text \<open>The body of \<^verbatim>\<open>while accumulator >= engine_dt\<close>, without the accumulator and the
  rate meter: one sample of the input and one call of \<open>engine_step\<close>.\<close>

definition engine_tick :: "bool \<Rightarrow> bool \<Rightarrow> real \<Rightarrow> int \<Rightarrow> int \<Rightarrow> reading \<Rightarrow> sim \<Rightarrow> sim" where
  "engine_tick mouse_mode deadzone_relax dt win_w win_h rd sm =
     (if mouse_mode then
        let edges = mouse_edges (mouse_pressed rd) (prev_mouse_buttons sm);
            any_edge = (edges \<noteq> [])
        in sm\<lparr>engine_state := engine_step (engine_state sm) dt win_w win_h CANVAS_MARGIN 0 0 edges any_edge
                         (Some (real_of_int (fst (mouse_pos rd)), real_of_int (snd (mouse_pos rd)))),
              prev_mouse_buttons := take 3 (mouse_pressed rd)\<rparr>
      else
        let r = sample (joy rd) (ctrl_prev_buttons sm) (current_deadzone deadzone_relax);
            smp = fst r
        in sm\<lparr>engine_state := engine_step (engine_state sm) dt win_w win_h CANVAS_MARGIN (smp_lx smp) (smp_ly smp)
                         (button_down_edges smp) (any_button_edge smp) None,
              ctrl_prev_buttons := snd r\<rparr>)"

text \<open>
  \<^verbatim>\<open>while accumulator >= engine_dt: ...; accumulator -= engine_dt; engine_meter.tick()\<close>.
  The body is a parameter, applied to the number of the tick; the result is the leftover
  accumulator, the state and the number of ticks run so far. The source computes
  \<^verbatim>\<open>engine_dt = 1.0 / float(max(1, engine_fps))\<close> once, just before the loop; here it is
  computed from the same \<open>engine_fps\<close> at each test. This is the loop in exact arithmetic:
  it gives the structure of an iteration, and of the ticks the count that exact arithmetic
  would give. The loop with the rounding of the doubles is \<open>drain64\<close>.
\<close>

function drain :: "int \<Rightarrow> (nat \<Rightarrow> 'st \<Rightarrow> 'st) \<Rightarrow> real \<Rightarrow> 'st \<Rightarrow> nat \<Rightarrow> real \<times> 'st \<times> nat" where
  "drain engine_fps body accumulator st n =
     (if accumulator \<ge> engine_dt engine_fps
      then drain engine_fps body (accumulator - engine_dt engine_fps) (body n st) (n + 1)
      else (accumulator, st, n))"
  by pat_completeness auto
termination
proof (relation "measure (\<lambda>(fps, body, acc, st, n). nat \<lfloor>acc * real_of_int (max 1 fps)\<rfloor>)")
  show "wf (measure (\<lambda>(fps, body, acc, st, n). nat \<lfloor>acc * real_of_int (max 1 fps)\<rfloor>))"
    by simp
next
  fix engine_fps :: int and body :: "nat \<Rightarrow> 'st \<Rightarrow> 'st" and accumulator :: real
    and st :: 'st and n :: nat
  assume a: "engine_dt engine_fps \<le> accumulator"
  define m where "m = real_of_int (max 1 engine_fps)"
  have m: "1 \<le> m" by (simp add: m_def)
  have dt: "engine_dt engine_fps = 1 / m" by (simp add: engine_dt_def m_def)
  have "1 \<le> accumulator * m"
    using a m dt by (simp add: field_simps)
  then have f: "1 \<le> \<lfloor>accumulator * m\<rfloor>" by linarith
  have "(accumulator - 1 / m) * m = accumulator * m - 1"
    using m by (simp add: field_simps)
  then have "\<lfloor>(accumulator - 1 / m) * m\<rfloor> = \<lfloor>accumulator * m\<rfloor> - 1"
    by simp
  with f have "nat \<lfloor>(accumulator - 1 / m) * m\<rfloor> < nat \<lfloor>accumulator * m\<rfloor>"
    by linarith
  then show "((engine_fps, body, accumulator - engine_dt engine_fps, body n st, n + 1),
              (engine_fps, body, accumulator, st, n))
             \<in> measure (\<lambda>(fps, body, acc, st, n). nat \<lfloor>acc * real_of_int (max 1 fps)\<rfloor>)"
    by (simp add: dt m_def)
qed

declare drain.simps [simp del]

text \<open>The controller cursor block at the top of the loop body
  (\<^verbatim>\<open>if not mouse_mode: lx, ly = ctrl.peek_axes(...)\<close> ...).\<close>

definition cursor_update ::
  "bool \<Rightarrow> joystick \<Rightarrow> bool \<Rightarrow> EngineState \<Rightarrow> vec2 \<Rightarrow> real \<Rightarrow> int \<Rightarrow> int \<Rightarrow> vec2" where
  "cursor_update mouse_mode jy deadzone_relax st controller_cursor frame_dt win_w win_h =
     (if \<not> mouse_mode then
        let a = peek_axes jy (current_deadzone deadzone_relax);
            ax = fst a; ay = snd a
        in if ax = 0 \<and> ay = 0 then
             \<lparr>vec_x = vec_x (pos st), vec_y = vec_y (pos st)\<rparr>
           else
             let cx = vec_x controller_cursor + (ax * ball_speed st) * frame_dt;
                 cy = vec_y controller_cursor + (ay * ball_speed st) * frame_dt;
                 br = ball_radius st
             in \<lparr>vec_x = clamp cx (real_of_int (CANVAS_MARGIN + br))
                            (real_of_int (win_w - CANVAS_MARGIN - br)),
                 vec_y = clamp cy (real_of_int (CANVAS_MARGIN + br))
                            (real_of_int (win_h - CANVAS_MARGIN - br))\<rparr>
      else controller_cursor)"

text \<open>
  One iteration of \<^verbatim>\<open>while running\<close>, from the reading of the clock to the end of the
  engine ticks. The settings (mouse mode, engine rate, deadzone relaxation, window size) are
  those in force during the iteration; the handling of window and widget events between the
  cursor block and the ticks, which changes settings, is not part of the model.
\<close>

record loop =
  last_time :: real
  accumulator :: real
  controller_cursor :: vec2
  simulation :: sim

record frame_result =
  after :: loop
  frame_dt :: real
  ticks :: nat

definition main_frame ::
  "bool \<Rightarrow> int \<Rightarrow> bool \<Rightarrow> int \<Rightarrow> int \<Rightarrow> real \<Rightarrow> joystick \<Rightarrow> (nat \<Rightarrow> reading) \<Rightarrow> loop
     \<Rightarrow> frame_result" where
  "main_frame mouse_mode engine_fps deadzone_relax win_w win_h now peek io lp =
     (let fdt = min (now - last_time lp) (25 / 100);
          acc = accumulator lp + fdt;
          cur = cursor_update mouse_mode peek deadzone_relax (engine_state (simulation lp))
                  (controller_cursor lp) fdt win_w win_h;
          dt = engine_dt engine_fps;
          r = drain engine_fps
                (\<lambda>n. engine_tick mouse_mode deadzone_relax dt win_w win_h (io n))
                acc (simulation lp) 0
      in \<lparr>after = \<lparr>last_time = now, accumulator = fst r, controller_cursor = cur,
                   simulation = fst (snd r)\<rparr>,
          frame_dt = fdt, ticks = snd (snd r)\<rparr>)"

text \<open>The position the ball is drawn at
  (\<^verbatim>\<open>if interp_enabled and engine_dt > 0.0: ... else: render_pos = state.pos\<close>).\<close>

definition render_pos :: "bool \<Rightarrow> real \<Rightarrow> real \<Rightarrow> EngineState \<Rightarrow> py_error + vec2" where
  "render_pos interp_enabled dt acc st =
     (if interp_enabled \<and> dt > 0 then
        let alpha = clamp (acc / dt) 0 1
        in vec_lerp (prev_pos st) (pos st) alpha
      else Inr (pos st))"

section \<open>main.py: the accumulator in binary64\<close>

text \<open>
  How many ticks a frame runs depends on the rounding of \<^verbatim>\<open>accumulator += frame_dt\<close>
  and \<^verbatim>\<open>accumulator -= engine_dt\<close>, so for the accumulator the arithmetic of Python's
  \<^verbatim>\<open>float\<close> (IEEE 754 binary64, round to nearest, ties to even) is modelled. \<open>fl x\<close> is
  the number with a 53-bit significand nearest to \<open>x\<close>: \<open>expo x\<close> is the exponent of \<open>x\<close>
  (\<open>2 ^ expo x \<le> |x| < 2 ^ (expo x + 1)\<close>), found by halving or doubling, and the
  significand is rounded with the same round-half-even as \<open>py_round\<close>. The range of the
  exponent is not limited: \<open>fl\<close> is the binary64 result wherever that neither overflows
  nor is subnormal, as is the case for the times and rates of this loop. \<open>u53\<close> is the unit
  roundoff.
\<close>

definition pow2 :: "int \<Rightarrow> real" where
  "pow2 e = (if 0 \<le> e then 2 ^ nat e else 1 / 2 ^ nat (- e))"

function halvings :: "real \<Rightarrow> nat" where
  "halvings x = (if 2 \<le> x then Suc (halvings (x / 2)) else 0)"
  by pat_completeness auto
termination
proof (relation "measure (\<lambda>x. nat \<lfloor>x\<rfloor>)")
  show "wf (measure (\<lambda>x::real. nat \<lfloor>x\<rfloor>))" by simp
next
  fix x :: real
  assume a: "2 \<le> x"
  then have "x / 2 \<le> x - 1" by simp
  then have "\<lfloor>x / 2\<rfloor> \<le> \<lfloor>x - 1\<rfloor>" by (rule floor_mono)
  moreover have "2 \<le> \<lfloor>x\<rfloor>" using a by linarith
  ultimately show "(x / 2, x) \<in> measure (\<lambda>x. nat \<lfloor>x\<rfloor>)" by simp
qed

function doublings :: "real \<Rightarrow> nat" where
  "doublings x = (if 0 < x \<and> x < 1 then Suc (doublings (2 * x)) else 0)"
  by pat_completeness auto
termination
proof (relation "measure (\<lambda>x. nat \<lceil>1 / x\<rceil>)")
  show "wf (measure (\<lambda>x::real. nat \<lceil>1 / x\<rceil>))" by simp
next
  fix x :: real
  assume a: "0 < x \<and> x < 1"
  define y where "y = 1 / x"
  have y: "1 < y" using a by (simp add: y_def)
  have h: "1 / (2 * x) = y / 2" by (simp add: y_def)
  have "\<lceil>y / 2\<rceil> < \<lceil>y\<rceil>"
  proof (cases "y \<le> 2")
    case True
    then have "\<lceil>y / 2\<rceil> \<le> 1" by (simp add: ceiling_le_iff)
    moreover have "2 \<le> \<lceil>y\<rceil>" using y by linarith
    ultimately show ?thesis by linarith
  next
    case False
    then have "y / 2 \<le> y - 1" by simp
    then have "\<lceil>y / 2\<rceil> \<le> \<lceil>y - 1\<rceil>" by (rule ceiling_mono)
    then show ?thesis by simp
  qed
  moreover have "0 < \<lceil>y\<rceil>" using y by linarith
  ultimately show "(2 * x, x) \<in> measure (\<lambda>x. nat \<lceil>1 / x\<rceil>)"
    unfolding h [symmetric] y_def by (simp add: mult.commute)
qed

declare halvings.simps [simp del] doublings.simps [simp del]

definition expo :: "real \<Rightarrow> int" where
  "expo x = (if 1 \<le> \<bar>x\<bar> then int (halvings \<bar>x\<bar>) else - int (doublings \<bar>x\<bar>))"

definition u53 :: real where
  "u53 = 1 / 2 ^ 53"

definition fl :: "real \<Rightarrow> real" where
  "fl x = real_of_int (py_round (x * pow2 (52 - expo x))) * pow2 (expo x - 52)"

text \<open>
  \<^verbatim>\<open>engine_dt = 1.0 / float(max(1, engine_fps))\<close>; the conversion of the integer is exact
  below \<open>2 ^ 53\<close>. \<^verbatim>\<open>set_engine_fps\<close> is the only writer of \<^verbatim>\<open>engine_fps\<close> after its
  default of 120.
\<close>

definition set_engine_fps :: "int \<Rightarrow> int" where
  "set_engine_fps v = py_int (clamp (real_of_int v) 1 2000)"

definition engine_dt64 :: "int \<Rightarrow> real" where
  "engine_dt64 engine_fps = fl (1 / real_of_int (max 1 engine_fps))"



section \<open>Notions of the specification\<close>

text \<open>A point lies within \<open>[margin + radius, dim - margin - radius]\<close> on both axes.\<close>

definition in_bounds :: "vec2 \<Rightarrow> int \<Rightarrow> int \<Rightarrow> int \<Rightarrow> int \<Rightarrow> bool" where
  "in_bounds p w h margin radius =
     (real_of_int (margin + radius) \<le> vec_x p \<and> vec_x p \<le> real_of_int (w - margin - radius) \<and>
      real_of_int (margin + radius) \<le> vec_y p \<and> vec_y p \<le> real_of_int (h - margin - radius))"

text \<open>The loop body run \<open>k\<close> times in a row, on the ticks numbered \<open>n, n + 1, ...\<close>.\<close>

fun run_ticks :: "(nat \<Rightarrow> 'st \<Rightarrow> 'st) \<Rightarrow> nat \<Rightarrow> nat \<Rightarrow> 'st \<Rightarrow> 'st" where
  "run_ticks body n 0 st = st"
| "run_ticks body n (Suc k) st = run_ticks body (Suc n) k (body n st)"

section \<open>States and runs used as examples\<close>

text \<open>The state \<open>make_initial_state\<close> builds for the default 1280 x 720 window when the
  random number drawn is 0.\<close>

definition initial_state :: EngineState where
  "initial_state =
     \<lparr>pos = \<lparr>vec_x = 640, vec_y = 360\<rparr>, prev_pos = \<lparr>vec_x = 640, vec_y = 360\<rparr>,
      ball_radius = 14, ball_speed = 700,
      visual = \<lparr>active_blink_color = (235, 235, 235), glow_elapsed = 1 / 2\<rparr>,
      target = \<lparr>enabled = False, t_pos = \<lparr>vec_x = 832, vec_y = 324\<rparr>,
                t_vel = \<lparr>vec_x = 170, vec_y = 0\<rparr>, size_pct = 165, speed_px_s = 170,
                radius_px = 23, hit_flash_elapsed = 35 / 100\<rparr>\<rparr>"

text \<open>The same state with the target switched on, and with the target next to the right
  wall.\<close>

definition target_on_state :: EngineState where
  "target_on_state = initial_state\<lparr>target := (target initial_state)\<lparr>enabled := True\<rparr>\<rparr>"

definition wall_state :: EngineState where
  "wall_state =
     target_on_state\<lparr>target := (target target_on_state)\<lparr>t_pos := \<lparr>vec_x = 1240, vec_y = 324\<rparr>\<rparr>\<rparr>"

definition wall_step :: EngineState where
  "wall_step = engine_step wall_state (1 / 10) 1280 720 12 0 0 [] False None"




text \<open>A window 160 pixels wide with the largest target (500 percent, radius 70): the
  lower bound of the target's x is 82 and the upper bound 78. The target stands at 78,
  where \<^verbatim>\<open>clamp_state_to_bounds\<close> puts a target that was further right when the
  window shrank.\<close>

definition narrow_window_state :: EngineState where
  "narrow_window_state =
     \<lparr>pos = \<lparr>vec_x = 80, vec_y = 300\<rparr>, prev_pos = \<lparr>vec_x = 80, vec_y = 300\<rparr>,
      ball_radius = 14, ball_speed = 700,
      visual = \<lparr>active_blink_color = (235, 235, 235), glow_elapsed = 1 / 2\<rparr>,
      target = \<lparr>enabled = True, t_pos = \<lparr>vec_x = 78, vec_y = 300\<rparr>,
                t_vel = \<lparr>vec_x = 60, vec_y = 80\<rparr>, size_pct = 500, speed_px_s = 100,
                radius_px = 70, hit_flash_elapsed = 35 / 100\<rparr>\<rparr>"

definition narrow_window_step :: EngineState where
  "narrow_window_step = engine_step narrow_window_state (1 / 60) 160 600 12 0 0 [] False None"

text \<open>The middle and the right mouse button going down in the same tick.\<close>

definition mouse_chord_step :: EngineState where
  "mouse_chord_step =
     engine_step initial_state (1 / 120) 1280 720 12 0 0
       (mouse_edges [False, True, True] [False, False, False]) True (Some (640, 360))"

text \<open>A target whose velocity is the zero vector.\<close>

definition zero_vel_target :: TargetState where
  "zero_vel_target = (TargetState_default False)\<lparr>t_vel := \<lparr>vec_x = 0, vec_y = 0\<rparr>\<rparr>"

text \<open>Frames of the loop: the clock stood at 0 at the previous frame, the accumulator holds
  \<open>acc\<close>, no controller is attached and no mouse button is down. The first frame at 60 Hz
  is 0.0167 s long (the double nearest to it).\<close>

definition loop_with :: "real \<Rightarrow> loop" where
  "loop_with acc =
     \<lparr>last_time = 0, accumulator = acc, controller_cursor = pos initial_state,
      simulation = \<lparr>engine_state = initial_state, prev_mouse_buttons = [False, False, False],
                    ctrl_prev_buttons = []\<rparr>\<rparr>"






text \<open>A controller with its stick pushed fully to the right, during a frame of 10 ms at an
  engine rate of 10 Hz.\<close>

definition stick_right :: joystick where
  "stick_right = Some ([1, 0], [False])"

definition stick_input :: "nat \<Rightarrow> reading" where
  "stick_input n =
     \<lparr>mouse_pos = (0, 0), mouse_pressed = [False, False, False], joy = stick_right\<rparr>"

definition stick_frame :: frame_result where
  "stick_frame = main_frame False 10 True 1280 720 (1 / 100) stick_right stick_input (loop_with 0)"

section \<open>Basic facts\<close>

lemma clamp_in_range: "lo \<le> hi \<Longrightarrow> lo \<le> clamp x lo hi \<and> clamp x lo hi \<le> hi"
  by (simp add: clamp_def)

lemma clamp_inside: "lo \<le> x \<Longrightarrow> x \<le> hi \<Longrightarrow> clamp x lo hi = x"
  by (simp add: clamp_def)

lemma foldl_edges_last:
  "foldl (\<lambda>v b. v\<lparr>active_blink_color := get_button_color b, glow_elapsed := 0\<rparr>) v es
     = (if es = [] then v
        else v\<lparr>active_blink_color := get_button_color (last es), glow_elapsed := 0\<rparr>)"
  by (induction es arbitrary: v) auto

lemma make_initial_state_default:
  "make_initial_state 1280 720 12 0 = Inr initial_state"
  by (simp add: make_initial_state_def set_params_def reset_def reseed_and_scale_def
      normalize_def length_squared_def scale_def compute_radius_def py_round_def py_int_def
      clamp_def TargetState_default_def initial_state_def BALL_RADIUS_def BALL_SPEED_PX_S_def
      TARGET_SIZE_PCT_DEFAULT_def TARGET_SIZE_PCT_MIN_def TARGET_SIZE_PCT_MAX_def
      TARGET_SPEED_PX_S_DEFAULT_def TARGET_SPEED_PX_S_MIN_def TARGET_SPEED_PX_S_MAX_def
      TARGET_FLASH_DURATION_S_def GLOW_DURATION_S_def BALL_BASE_COLOR_def Let_def)

section \<open>What \<open>engine_step\<close> does to each field\<close>

lemma engine_step_pos:
  "pos (engine_step s dt w h margin lx ly edges any_edge ov) =
     \<lparr>vec_x = clamp (case ov of None \<Rightarrow> vec_x (pos s) + (lx * ball_speed s) * dt | Some c \<Rightarrow> fst c)
               (real_of_int (margin + ball_radius s)) (real_of_int (w - margin - ball_radius s)),
      vec_y = clamp (case ov of None \<Rightarrow> vec_y (pos s) + (ly * ball_speed s) * dt | Some c \<Rightarrow> snd c)
               (real_of_int (margin + ball_radius s)) (real_of_int (h - margin - ball_radius s))\<rparr>"
  by (cases ov) (simp_all add: engine_step_def Let_def)

lemma engine_step_prev_pos:
  "prev_pos (engine_step s dt w h margin lx ly edges any_edge ov) = pos s"
  by (simp add: engine_step_def Let_def)

lemma engine_step_ball_radius:
  "ball_radius (engine_step s dt w h margin lx ly edges any_edge ov) = ball_radius s"
  by (simp add: engine_step_def Let_def)

lemma engine_step_visual:
  "visual (engine_step s dt w h margin lx ly edges any_edge ov) =
     foldl (\<lambda>v b. v\<lparr>active_blink_color := get_button_color b, glow_elapsed := 0\<rparr>)
       ((visual s)\<lparr>glow_elapsed :=
           (if glow_elapsed (visual s) < GLOW_DURATION_S
            then (if glow_elapsed (visual s) + dt > GLOW_DURATION_S then GLOW_DURATION_S
                  else glow_elapsed (visual s) + dt)
            else glow_elapsed (visual s))\<rparr>) edges"
  by (simp add: engine_step_def Let_def)

section \<open>The ball stays inside the canvas\<close>

text \<open>
  C2. If the starting \<open>pos\<close> lies within \<open>[margin + radius, dim - margin - radius]\<close> on both
  axes, then so does \<open>pos\<close> after \<open>engine_step\<close>, for every dt (in particular every dt > 0),
  every window, margin, pair of axes and edge set, with or without an override position.
\<close>

theorem engine_step_pos_in_bounds:
  assumes "in_bounds (pos s) w h margin (ball_radius s)"
  shows "in_bounds (pos (engine_step s dt w h margin lx ly edges any_edge ov)) w h margin
           (ball_radius s)"
proof -
  from assms have x: "real_of_int (margin + ball_radius s) \<le> real_of_int (w - margin - ball_radius s)"
    and y: "real_of_int (margin + ball_radius s) \<le> real_of_int (h - margin - ball_radius s)"
    unfolding in_bounds_def by linarith+
  show ?thesis
    unfolding in_bounds_def engine_step_pos
    using clamp_in_range [OF x] clamp_in_range [OF y] by simp
qed

theorem engine_step_pos_in_bounds_witness:
  "in_bounds (pos initial_state) 1280 720 12 (ball_radius initial_state) \<and>
   in_bounds (pos (engine_step initial_state (1 / 120) 1280 720 12 1 0 [0, 3] True None))
     1280 720 12 (ball_radius initial_state)"
  using engine_step_pos_in_bounds
    [of initial_state 1280 720 12 "1 / 120" 1 0 "[0, 3]" True None]
  by (simp add: initial_state_def in_bounds_def)

text \<open>
  C9. From an in-bounds state, \<open>engine_step\<close> with both axes zero, no override and no
  button edge leaves \<open>pos\<close> where it was and sets \<open>prev_pos\<close> to it, so after one call
  \<open>prev_pos = pos\<close>, and after any number of such calls \<open>pos\<close> is still the starting one.
\<close>

theorem engine_step_idle:
  assumes "in_bounds (pos s) w h margin (ball_radius s)"
  shows "pos (engine_step s dt w h margin 0 0 [] False None) = pos s
       \<and> prev_pos (engine_step s dt w h margin 0 0 [] False None) = pos s
       \<and> prev_pos (engine_step s dt w h margin 0 0 [] False None)
           = pos (engine_step s dt w h margin 0 0 [] False None)
       \<and> (\<forall>n. pos (((\<lambda>s'. engine_step s' dt w h margin 0 0 [] False None) ^^ n) s) = pos s)"
proof -
  let ?f = "\<lambda>s'. engine_step s' dt w h margin 0 0 [] False None"
  have one: "pos (?f s') = pos s'" if "in_bounds (pos s') w h margin (ball_radius s')" for s'
    using that unfolding in_bounds_def engine_step_pos by (simp add: clamp_inside)
  have iter: "pos ((?f ^^ n) s) = pos s \<and> ball_radius ((?f ^^ n) s) = ball_radius s" for n
  proof (induction n)
    case 0
    show ?case by simp
  next
    case (Suc n)
    then have "in_bounds (pos ((?f ^^ n) s)) w h margin (ball_radius ((?f ^^ n) s))"
      using assms by simp
    from one [OF this] Suc show ?case
      by (simp add: engine_step_ball_radius)
  qed
  show ?thesis
    using one [OF assms] iter by (simp add: engine_step_prev_pos)
qed

theorem engine_step_idle_witness:
  "in_bounds (pos initial_state) 1280 720 12 (ball_radius initial_state) \<and>
   pos (engine_step initial_state (1 / 120) 1280 720 12 0 0 [] False None) = pos initial_state \<and>
   prev_pos (engine_step initial_state (1 / 120) 1280 720 12 0 0 [] False None)
     = pos (engine_step initial_state (1 / 120) 1280 720 12 0 0 [] False None) \<and>
   pos (((\<lambda>s'. engine_step s' (1 / 120) 1280 720 12 0 0 [] False None) ^^ 120) initial_state)
     = pos initial_state"
proof -
  have b: "in_bounds (pos initial_state) 1280 720 12 (ball_radius initial_state)"
    by (simp add: initial_state_def in_bounds_def)
  from engine_step_idle [OF b, of "1 / 120"] b show ?thesis
    by blast
qed

section \<open>A disabled target is left alone\<close>

text \<open>
  C10. When \<open>state.target.enabled\<close> is false, \<open>engine_step\<close> leaves the whole target
  record (enabled, pos, vel, size_pct, speed_px_s, radius_px, hit_flash_elapsed) exactly as
  it was, whatever dt, the window, the axes, the button edges and the override position.
\<close>

theorem engine_step_target_disabled_unchanged:
  "\<not> enabled (target s) \<Longrightarrow>
     target (engine_step s dt w h margin lx ly edges any_edge ov) = target s"
  by (simp add: engine_step_def Let_def)

theorem engine_step_target_disabled_unchanged_witness:
  "\<not> enabled (target initial_state) \<and>
   target (engine_step initial_state (1 / 120) 1280 720 12 1 0 [0, 3] True None)
     = target initial_state"
  using engine_step_target_disabled_unchanged
    [of initial_state "1 / 120" 1280 720 12 1 0 "[0, 3]" True None]
  by (simp add: initial_state_def)

section \<open>The target: movement, reflection, hit test\<close>

lemma engine_step_target_x:
  assumes "enabled (target s)"
  shows "vec_x (t_pos (target (engine_step s dt w h margin lx ly edges any_edge ov))) =
           (if vec_x (t_pos (target s)) + vec_x (t_vel (target s)) * dt
                 < real_of_int (margin + radius_px (target s))
            then real_of_int (margin + radius_px (target s))
            else if vec_x (t_pos (target s)) + vec_x (t_vel (target s)) * dt
                 > real_of_int (w - margin - radius_px (target s))
            then real_of_int (w - margin - radius_px (target s))
            else vec_x (t_pos (target s)) + vec_x (t_vel (target s)) * dt)"
    and "vec_x (t_vel (target (engine_step s dt w h margin lx ly edges any_edge ov))) =
           (if vec_x (t_pos (target s)) + vec_x (t_vel (target s)) * dt
                 < real_of_int (margin + radius_px (target s))
            then \<bar>vec_x (t_vel (target s))\<bar>
            else if vec_x (t_pos (target s)) + vec_x (t_vel (target s)) * dt
                 > real_of_int (w - margin - radius_px (target s))
            then - \<bar>vec_x (t_vel (target s))\<bar>
            else vec_x (t_vel (target s)))"
  using assms by (simp_all add: engine_step_def Let_def)

lemma engine_step_target_y:
  assumes "enabled (target s)"
  shows "vec_y (t_pos (target (engine_step s dt w h margin lx ly edges any_edge ov))) =
           (if vec_y (t_pos (target s)) + vec_y (t_vel (target s)) * dt
                 < real_of_int (margin + radius_px (target s))
            then real_of_int (margin + radius_px (target s))
            else if vec_y (t_pos (target s)) + vec_y (t_vel (target s)) * dt
                 > real_of_int (h - margin - radius_px (target s))
            then real_of_int (h - margin - radius_px (target s))
            else vec_y (t_pos (target s)) + vec_y (t_vel (target s)) * dt)"
    and "vec_y (t_vel (target (engine_step s dt w h margin lx ly edges any_edge ov))) =
           (if vec_y (t_pos (target s)) + vec_y (t_vel (target s)) * dt
                 < real_of_int (margin + radius_px (target s))
            then \<bar>vec_y (t_vel (target s))\<bar>
            else if vec_y (t_pos (target s)) + vec_y (t_vel (target s)) * dt
                 > real_of_int (h - margin - radius_px (target s))
            then - \<bar>vec_y (t_vel (target s))\<bar>
            else vec_y (t_vel (target s)))"
  using assms by (simp_all add: engine_step_def Let_def)




text \<open>
  C6, as the code has it. With the target enabled, after the target has advanced by
  \<open>vel * dt\<close> to \<open>(px, py)\<close>: if \<open>px\<close> is below \<open>min_tx\<close> the target is put at exactly
  \<open>min_tx\<close> and its x-velocity becomes \<open>+|vx|\<close>; otherwise, if \<open>px\<close> is above \<open>max_tx\<close>, it
  is put at exactly \<open>max_tx\<close> and its x-velocity becomes \<open>-|vx|\<close>; the same for y with
  \<open>min_ty\<close> and \<open>max_ty\<close>. The lower bound is tested first, so the upper-bound case holds
  as the claim states it whenever \<open>min_tx \<le> max_tx\<close> (resp. \<open>min_ty \<le> max_ty\<close>). Each axis
  is treated from its own coordinate alone, and the magnitude of each velocity component
  is unchanged.
\<close>

theorem engine_step_target_reflection:
  assumes "enabled (target s)"
  shows "let s' = engine_step s dt w h margin lx ly edges any_edge ov;
             t = target s; t' = target s';
             px = vec_x (t_pos t) + vec_x (t_vel t) * dt;
             py = vec_y (t_pos t) + vec_y (t_vel t) * dt;
             min_tx = real_of_int (margin + radius_px t);
             max_tx = real_of_int (w - margin - radius_px t);
             min_ty = real_of_int (margin + radius_px t);
             max_ty = real_of_int (h - margin - radius_px t)
         in (px < min_tx \<longrightarrow> vec_x (t_pos t') = min_tx \<and> vec_x (t_vel t') = \<bar>vec_x (t_vel t)\<bar>)
          \<and> (\<not> px < min_tx \<and> px > max_tx \<longrightarrow>
                vec_x (t_pos t') = max_tx \<and> vec_x (t_vel t') = - \<bar>vec_x (t_vel t)\<bar>)
          \<and> (py < min_ty \<longrightarrow> vec_y (t_pos t') = min_ty \<and> vec_y (t_vel t') = \<bar>vec_y (t_vel t)\<bar>)
          \<and> (\<not> py < min_ty \<and> py > max_ty \<longrightarrow>
                vec_y (t_pos t') = max_ty \<and> vec_y (t_vel t') = - \<bar>vec_y (t_vel t)\<bar>)
          \<and> (min_tx \<le> max_tx \<and> px > max_tx \<longrightarrow>
                vec_x (t_pos t') = max_tx \<and> vec_x (t_vel t') = - \<bar>vec_x (t_vel t)\<bar>)
          \<and> (min_ty \<le> max_ty \<and> py > max_ty \<longrightarrow>
                vec_y (t_pos t') = max_ty \<and> vec_y (t_vel t') = - \<bar>vec_y (t_vel t)\<bar>)
          \<and> \<bar>vec_x (t_vel t')\<bar> = \<bar>vec_x (t_vel t)\<bar>
          \<and> \<bar>vec_y (t_vel t')\<bar> = \<bar>vec_y (t_vel t)\<bar>"
  unfolding Let_def
  using engine_step_target_x [OF assms, of dt w h margin lx ly edges any_edge ov]
    engine_step_target_y [OF assms, of dt w h margin lx ly edges any_edge ov]
  by simp

text \<open>In the default window a target 5 pixels from the right bound, moving right at
  170 px/s, crosses the bound within a tick of 0.1 s and comes back.\<close>

theorem engine_step_target_reflection_witness:
  "enabled (target wall_state)
   \<and> real_of_int (12 + radius_px (target wall_state))
       \<le> real_of_int (1280 - 12 - radius_px (target wall_state))
   \<and> vec_x (t_pos (target wall_state)) + vec_x (t_vel (target wall_state)) * (1 / 10)
       > real_of_int (1280 - 12 - radius_px (target wall_state))
   \<and> vec_x (t_pos (target wall_step)) = 1245
   \<and> vec_x (t_vel (target wall_step)) = - 170
   \<and> vec_y (t_pos (target wall_step)) = 324"
proof -
  have e: "enabled (target wall_state)"
    by (simp add: wall_state_def target_on_state_def)
  have b: "real_of_int (12 + radius_px (target wall_state))
             \<le> real_of_int (1280 - 12 - radius_px (target wall_state))"
    and px: "vec_x (t_pos (target wall_state)) + vec_x (t_vel (target wall_state)) * (1 / 10)
               > real_of_int (1280 - 12 - radius_px (target wall_state))"
    and v: "real_of_int (1280 - 12 - radius_px (target wall_state)) = 1245"
      "\<bar>vec_x (t_vel (target wall_state))\<bar> = 170"
    by (simp_all add: wall_state_def target_on_state_def initial_state_def)
  from engine_step_target_reflection
    [OF e, of "1 / 10" 1280 720 12 0 0 "[]" False None, unfolded Let_def] b px
  have "vec_x (t_pos (target wall_step))
          = real_of_int (1280 - 12 - radius_px (target wall_state))
      \<and> vec_x (t_vel (target wall_step)) = - \<bar>vec_x (t_vel (target wall_state))\<bar>"
    unfolding wall_step_def by blast
  moreover have "vec_y (t_pos (target wall_step)) = 324"
    unfolding wall_step_def engine_step_target_y [OF e]
    by (simp add: wall_state_def target_on_state_def initial_state_def)
  ultimately show ?thesis
    using e b px v by simp
qed

text \<open>The claim as stated fails in a window too narrow for the target: the position
  79 is above \<open>max_tx = 78\<close> (and below \<open>min_tx = 82\<close>), and the target is put at 82 with
  x-velocity \<open>+60\<close>, not at 78 with \<open>-60\<close>.\<close>

theorem engine_step_reflection_counterexample:
  "enabled (target narrow_window_state)
   \<and> vec_x (t_pos (target narrow_window_state))
       + vec_x (t_vel (target narrow_window_state)) * (1 / 60)
       > real_of_int (160 - 12 - radius_px (target narrow_window_state))
   \<and> vec_x (t_pos (target narrow_window_step))
       \<noteq> real_of_int (160 - 12 - radius_px (target narrow_window_state))
   \<and> vec_x (t_vel (target narrow_window_step))
       \<noteq> - \<bar>vec_x (t_vel (target narrow_window_state))\<bar>
   \<and> vec_x (t_pos (target narrow_window_step)) = 82
   \<and> vec_x (t_vel (target narrow_window_step)) = 60"
  by (simp add: narrow_window_step_def engine_step_def narrow_window_state_def Let_def clamp_def
      TARGET_FLASH_DURATION_S_def GLOW_DURATION_S_def)




section \<open>Button edges and the blink colour\<close>

lemma sorted_last_Max: "sorted xs \<Longrightarrow> xs \<noteq> [] \<Longrightarrow> last xs = Max (set xs)"
proof (induction xs)
  case Nil
  then show ?case by simp
next
  case (Cons x xs)
  show ?case
  proof (cases "xs = []")
    case True
    then show ?thesis by simp
  next
    case False
    with Cons have l: "last xs = Max (set xs)" by simp
    from False have "last xs \<in> set xs" by simp
    with Cons.prems have "x \<le> last xs" by auto
    with l False show ?thesis
      by (simp add: max_def)
  qed
qed

text \<open>The edges a controller sample reports are in increasing button order.\<close>

lemma sample_edges_sorted: "sorted (button_down_edges (fst (sample jy prev dz)))"
proof (cases jy)
  case None
  then show ?thesis by (simp add: sample_def)
next
  case (Some a)
  obtain axes buttons where a: "a = (axes, buttons)" by (cases a)
  have "sorted (map int (filter P [0..<n]))" for P n
    by (rule sorted_wrt_mono_rel [of _ "(\<le>)"])
      (simp_all add: sorted_map sorted_wrt_filter sorted_wrt_map)
  with Some a show ?thesis
    by (simp add: sample_def Let_def)
qed

text \<open>
  C4, as the code has it. When the tuple of press-edges is not empty, \<open>engine_step\<close> applies
  the edges in the order of the tuple, a later one overriding an earlier one: after the
  call \<open>glow_elapsed = 0\<close> and \<open>active_blink_color\<close> is the mapped colour of the last edge of
  the tuple. When the tuple is in increasing button order (as a controller sample's is),
  that is the colour of the highest button index in it.
\<close>

theorem engine_step_edges_last_wins:
  assumes "edges \<noteq> []"
  shows "glow_elapsed (visual (engine_step s dt w h margin lx ly edges any_edge ov)) = 0
       \<and> active_blink_color (visual (engine_step s dt w h margin lx ly edges any_edge ov))
           = get_button_color (last edges)
       \<and> (sorted edges \<longrightarrow>
            active_blink_color (visual (engine_step s dt w h margin lx ly edges any_edge ov))
              = get_button_color (Max (set edges)))"
  using assms by (simp add: engine_step_visual foldl_edges_last sorted_last_Max)

theorem engine_step_edges_last_wins_witness:
  "[0, 3] \<noteq> ([] :: int list) \<and> sorted [0, 3 :: int]
   \<and> glow_elapsed (visual (engine_step initial_state (1 / 120) 1280 720 12 0 0 [0, 3] True None)) = 0
   \<and> active_blink_color
        (visual (engine_step initial_state (1 / 120) 1280 720 12 0 0 [0, 3] True None))
       = (120, 255, 130)"
  using engine_step_edges_last_wins [of "[0, 3]" initial_state "1 / 120" 1280 720 12 0 0 True None]
  by (simp add: get_button_color_def BUTTON_COLORS_def)

text \<open>The claim as stated fails in mouse mode: the middle and the right button going
  down in one tick give the edges 2, 1 in that order, and the colour left is that of
  button 1, not that of the highest index 2.\<close>

theorem engine_step_edges_counterexample:
  "mouse_edges [False, True, True] [False, False, False] = [2, 1]
   \<and> Max (set (mouse_edges [False, True, True] [False, False, False])) = 2
   \<and> active_blink_color (visual mouse_chord_step) = get_button_color 1
   \<and> active_blink_color (visual mouse_chord_step)
       \<noteq> get_button_color (Max (set (mouse_edges [False, True, True] [False, False, False])))"
  by (simp add: mouse_chord_step_def engine_step_visual foldl_edges_last mouse_edges_def
      mouse_mapping_def get_button_color_def BUTTON_COLORS_def upt_rec)

section \<open>The loop over the reals\<close>

lemma engine_dt_pos: "0 < engine_dt fps"
  by (simp add: engine_dt_def)

text \<open>Over the reals the loop runs one tick for each whole \<open>engine_dt\<close> in the
  accumulator.\<close>

lemma drain_char:
  "drain fps body acc st n =
     (acc - real (nat \<lfloor>acc / engine_dt fps\<rfloor>) * engine_dt fps,
      run_ticks body n (nat \<lfloor>acc / engine_dt fps\<rfloor>) st,
      n + nat \<lfloor>acc / engine_dt fps\<rfloor>)"
proof (induction fps body acc st n rule: drain.induct)
  case (1 fps body acc st n)
  let ?dt = "engine_dt fps"
  have dt: "0 < ?dt" by (rule engine_dt_pos)
  show ?case
  proof (cases "?dt \<le> acc")
    case True
    then have "1 \<le> acc / ?dt" using dt by (simp add: field_simps)
    then have f: "1 \<le> \<lfloor>acc / ?dt\<rfloor>" by linarith
    have "(acc - ?dt) / ?dt = acc / ?dt - 1" using dt by (simp add: field_simps)
    then have "\<lfloor>(acc - ?dt) / ?dt\<rfloor> = \<lfloor>acc / ?dt\<rfloor> - 1" by simp
    with f have k: "nat \<lfloor>acc / ?dt\<rfloor> = Suc (nat \<lfloor>(acc - ?dt) / ?dt\<rfloor>)" by linarith
    have "drain fps body acc st n = drain fps body (acc - ?dt) (body n st) (n + 1)"
      using True by (subst drain.simps) simp
    also have "\<dots> = (acc - ?dt - real (nat \<lfloor>(acc - ?dt) / ?dt\<rfloor>) * ?dt,
        run_ticks body (n + 1) (nat \<lfloor>(acc - ?dt) / ?dt\<rfloor>) (body n st),
        n + 1 + nat \<lfloor>(acc - ?dt) / ?dt\<rfloor>)"
      using "1.IH" [OF True] .
    also have "\<dots> = (acc - real (nat \<lfloor>acc / ?dt\<rfloor>) * ?dt,
        run_ticks body n (nat \<lfloor>acc / ?dt\<rfloor>) st, n + nat \<lfloor>acc / ?dt\<rfloor>)"
      unfolding k by (simp add: algebra_simps)
    finally show ?thesis .
  next
    case False
    then have "acc / ?dt < 1" using dt by (simp add: field_simps)
    then have "\<lfloor>acc / ?dt\<rfloor> \<le> 0" by linarith
    then have k: "nat \<lfloor>acc / ?dt\<rfloor> = 0" by simp
    have "drain fps body acc st n = (acc, st, n)"
      using False by (subst drain.simps) simp
    then show ?thesis unfolding k by simp
  qed
qed

lemma main_frame_fields:
  "frame_dt (main_frame mm fps dz w h now peek io lp) = min (now - last_time lp) (25 / 100)"
  "ticks (main_frame mm fps dz w h now peek io lp)
     = nat \<lfloor>(accumulator lp + min (now - last_time lp) (25 / 100)) / engine_dt fps\<rfloor>"
  "accumulator (after (main_frame mm fps dz w h now peek io lp))
     = accumulator lp + min (now - last_time lp) (25 / 100)
       - real (nat \<lfloor>(accumulator lp + min (now - last_time lp) (25 / 100)) / engine_dt fps\<rfloor>)
         * engine_dt fps"
  "simulation (after (main_frame mm fps dz w h now peek io lp))
     = run_ticks (\<lambda>n. engine_tick mm dz (engine_dt fps) w h (io n)) 0
         (nat \<lfloor>(accumulator lp + min (now - last_time lp) (25 / 100)) / engine_dt fps\<rfloor>)
         (simulation lp)"
  "controller_cursor (after (main_frame mm fps dz w h now peek io lp))
     = cursor_update mm peek dz (engine_state (simulation lp)) (controller_cursor lp)
         (min (now - last_time lp) (25 / 100)) w h"
  "last_time (after (main_frame mm fps dz w h now peek io lp)) = now"
  by (simp_all add: main_frame_def Let_def drain_char)

section \<open>Binary64 rounding\<close>

lemmas fl_eval = fl_def expo_def doublings.simps halvings.simps pow2_def py_round_def Let_def

lemma pow2_pos: "0 < pow2 e"
  by (simp add: pow2_def)

lemma pow2_powi: "pow2 e = power_int 2 e"
  by (simp add: pow2_def power_int_def power_one_over inverse_eq_divide)

lemma pow2_add: "pow2 (a + b) = pow2 a * pow2 b"
  by (simp add: pow2_powi power_int_add)

lemma pow2_0: "pow2 0 = 1"
  by (simp add: pow2_def)

lemma halvings_bracket:
  "1 \<le> x \<Longrightarrow> 2 ^ halvings x \<le> x \<and> x < 2 * 2 ^ halvings x"
proof (induction x rule: halvings.induct)
  case (1 x)
  show ?case
  proof (cases "2 \<le> x")
    case True
    then have "1 \<le> x / 2" by simp
    from "1.IH" [OF True this] True show ?thesis
      by (subst (1 2) halvings.simps) simp
  next
    case False
    with "1.prems" show ?thesis
      by (subst (1 2) halvings.simps) simp
  qed
qed

lemma doublings_bracket:
  "0 < x \<Longrightarrow> x < 1 \<Longrightarrow> 1 \<le> x * 2 ^ doublings x \<and> x * 2 ^ doublings x < 2"
proof (induction x rule: doublings.induct)
  case (1 x)
  have c: "0 < x \<and> x < 1" using "1.prems" by simp
  have s: "doublings x = Suc (doublings (2 * x))"
    using c by (subst doublings.simps) simp
  show ?case
  proof (cases "2 * x < 1")
    case True
    from "1.IH" [OF c] c True show ?thesis
      unfolding s by (simp add: mult.assoc mult.left_commute)
  next
    case False
    then have "doublings (2 * x) = 0"
      by (subst doublings.simps) simp
    with False c show ?thesis unfolding s by simp
  qed
qed

lemma expo_bracket:
  assumes "x \<noteq> 0"
  shows "pow2 (expo x) \<le> \<bar>x\<bar> \<and> \<bar>x\<bar> < 2 * pow2 (expo x)"
proof (cases "1 \<le> \<bar>x\<bar>")
  case True
  with halvings_bracket [OF True] show ?thesis
    by (simp add: expo_def pow2_def)
next
  case False
  then have b: "0 < \<bar>x\<bar>" "\<bar>x\<bar> < 1" using assms by simp_all
  let ?n = "doublings \<bar>x\<bar>"
  have p: "(0::real) < 2 ^ ?n" by simp
  from doublings_bracket [OF b]
  have "1 / 2 ^ ?n \<le> \<bar>x\<bar>" "\<bar>x\<bar> < 2 * (1 / 2 ^ ?n)"
    using p by (simp_all add: field_simps)
  moreover have "pow2 (expo x) = 1 / 2 ^ ?n"
    using False by (cases "?n = 0") (simp_all add: expo_def pow2_def)
  ultimately show ?thesis by simp
qed

lemma py_round_err: "\<bar>real_of_int (py_round y) - y\<bar> \<le> 1 / 2"
  unfolding py_round_def Let_def by (simp; linarith)

lemma py_round_0: "py_round 0 = 0"
  by (simp add: py_round_def)

lemma fl_0: "fl 0 = 0"
  by (simp add: fl_def py_round_0)

lemma fl_err: "\<bar>fl x - x\<bar> \<le> \<bar>x\<bar> * u53"
proof (cases "x = 0")
  case True
  then show ?thesis by (simp add: fl_0)
next
  case False
  let ?e = "expo x"
  let ?y = "x * pow2 (52 - ?e)"
  have inv: "pow2 (52 - ?e) * pow2 (?e - 52) = 1"
    using pow2_add [of "52 - ?e" "?e - 52"] by (simp add: pow2_0)
  have "fl x - x = (real_of_int (py_round ?y) - ?y) * pow2 (?e - 52)"
    unfolding fl_def using inv by (simp add: algebra_simps)
  then have "\<bar>fl x - x\<bar> = \<bar>real_of_int (py_round ?y) - ?y\<bar> * pow2 (?e - 52)"
    using pow2_pos [of "?e - 52"] by (simp add: abs_mult)
  also have "\<dots> \<le> (1 / 2) * pow2 (?e - 52)"
    using py_round_err [of ?y] pow2_pos [of "?e - 52"] by (simp add: mult_right_mono)
  also have "\<dots> = pow2 ?e * u53"
    using pow2_add [of ?e "- 52"] by (simp add: pow2_def u53_def)
  also have "\<dots> \<le> \<bar>x\<bar> * u53"
    using expo_bracket [OF False] by (simp add: mult_right_mono u53_def)
  finally show ?thesis .
qed

lemma u53_bounds: "0 < u53" "u53 < 1"
  by (simp_all add: u53_def)

lemma fl_upper: "0 \<le> x \<Longrightarrow> fl x \<le> x + x * u53"
proof -
  assume "0 \<le> x"
  then have "\<bar>fl x - x\<bar> \<le> x * u53" using fl_err [of x] by simp
  then show ?thesis by linarith
qed




section \<open>The loop in binary64: accumulator and engine ticks\<close>














lemma set_engine_fps_range: "1 \<le> set_engine_fps v \<and> set_engine_fps v \<le> 2000"
  by (simp add: set_engine_fps_def clamp_def py_int_def)

text \<open>A leftover is below \<open>engine_dt\<close>, which is at most one second.\<close>

lemma engine_dt64_le_one: "engine_dt64 fps \<le> 1"
proof (cases "max 1 fps = 1")
  case True
  then show ?thesis by (simp add: engine_dt64_def fl_eval)
next
  case False
  define x where "x = 1 / real_of_int (max 1 fps)"
  from False have "2 \<le> real_of_int (max 1 fps)" by simp
  then have x: "0 \<le> x" "x \<le> 1 / 2" by (simp_all add: x_def)
  have "x * u53 \<le> x" using x(1) u53_bounds by (simp add: mult_left_le)
  with fl_upper [OF x(1)] x(2) have "fl x \<le> 1" by linarith
  then show ?thesis by (simp add: engine_dt64_def x_def)
qed











section \<open>The position drawn\<close>

lemma vec_lerp_ends: "vec_lerp a b 0 = Inr a" "vec_lerp a b 1 = Inr b"
  by (simp_all add: vec_lerp_def)

text \<open>
  C5. With interpolation enabled and \<open>engine_dt > 0\<close> (as the loop's
  \<open>1 / max(1, engine_fps)\<close> always is) the position drawn is
  \<open>lerp (prev_pos, pos, alpha)\<close> with \<open>alpha = clamp (accumulator / engine_dt, 0, 1)\<close> (the
  interpolation never fails, alpha being within [0, 1]); at \<open>alpha = 0\<close> it is exactly
  \<open>prev_pos\<close> and at \<open>alpha = 1\<close> exactly \<open>pos\<close>. With interpolation disabled it is \<open>pos\<close>,
  whatever the accumulator.
\<close>

theorem render_pos_interpolation:
  "(0 < dt \<longrightarrow>
      render_pos True dt acc st = vec_lerp (prev_pos st) (pos st) (clamp (acc / dt) 0 1)
    \<and> (\<exists>p. render_pos True dt acc st = Inr p)
    \<and> (clamp (acc / dt) 0 1 = 0 \<longrightarrow> render_pos True dt acc st = Inr (prev_pos st))
    \<and> (clamp (acc / dt) 0 1 = 1 \<longrightarrow> render_pos True dt acc st = Inr (pos st)))
   \<and> render_pos True (engine_dt fps) acc st
       = vec_lerp (prev_pos st) (pos st) (clamp (acc / engine_dt fps) 0 1)
   \<and> render_pos False dt acc st = Inr (pos st)"
proof -
  have loop: "render_pos True (engine_dt fps) acc st
       = vec_lerp (prev_pos st) (pos st) (clamp (acc / engine_dt fps) 0 1)"
    using engine_dt_pos [of fps] by (simp add: render_pos_def)
  have r: "render_pos True dt acc st = vec_lerp (prev_pos st) (pos st) (clamp (acc / dt) 0 1)"
    if "0 < dt"
    using that by (simp add: render_pos_def)
  have range: "0 \<le> clamp (acc / dt) 0 1 \<and> clamp (acc / dt) 0 1 \<le> 1"
    by (simp add: clamp_def)
  then have ok: "\<exists>p. vec_lerp (prev_pos st) (pos st) (clamp (acc / dt) 0 1) = Inr p"
    by (simp add: vec_lerp_def)
  have off: "render_pos False dt acc st = Inr (pos st)"
    by (simp add: render_pos_def)
  show ?thesis
    using r ok off loop vec_lerp_ends [of "prev_pos st" "pos st"] by auto
qed

text \<open>After one tick to the right from the initial state: with an empty accumulator the
  ball is drawn where it was before the tick, with a full one where it is now.\<close>

theorem render_pos_interpolation_witness:
  "(0::real) < 1 / 120
   \<and> clamp (0 / (1 / 120)) 0 1 = 0
   \<and> render_pos True (1 / 120) 0 (engine_step initial_state (1 / 120) 1280 720 12 1 0 [] False None)
       = Inr (pos initial_state)
   \<and> clamp ((1 / 120) / (1 / 120)) 0 1 = 1
   \<and> render_pos True (1 / 120) (1 / 120)
         (engine_step initial_state (1 / 120) 1280 720 12 1 0 [] False None)
       = Inr (pos (engine_step initial_state (1 / 120) 1280 720 12 1 0 [] False None))"
proof -
  let ?s = "engine_step initial_state (1 / 120) 1280 720 12 1 0 [] False None"
  have a: "(0::real) < 1 / 120" "clamp (0 / (1 / 120)) 0 1 = 0"
    "clamp ((1 / 120) / (1 / 120)) 0 1 = 1"
    by (simp_all add: clamp_def)
  have p: "prev_pos ?s = pos initial_state"
    by (simp add: engine_step_prev_pos)
  from render_pos_interpolation [of "1 / 120" 0 ?s]
    render_pos_interpolation [of "1 / 120" "1 / 120" ?s] a p
  show ?thesis by (simp add: vec_lerp_ends)
qed

section \<open>The real-time cursor\<close>

lemma cursor_update_controller:
  "cursor_update False jy dz st cur fdt w h =
     (if fst (peek_axes jy (current_deadzone dz)) = 0 \<and> snd (peek_axes jy (current_deadzone dz)) = 0
      then pos st
      else \<lparr>vec_x = clamp (vec_x cur + (fst (peek_axes jy (current_deadzone dz)) * ball_speed st) * fdt)
                        (real_of_int (CANVAS_MARGIN + ball_radius st))
                        (real_of_int (w - CANVAS_MARGIN - ball_radius st)),
            vec_y = clamp (vec_y cur + (snd (peek_axes jy (current_deadzone dz)) * ball_speed st) * fdt)
                        (real_of_int (CANVAS_MARGIN + ball_radius st))
                        (real_of_int (h - CANVAS_MARGIN - ball_radius st))\<rparr>)"
  by (simp add: cursor_update_def Let_def)

text \<open>
  C7. In controller mode, in every iteration of the loop (whatever the accumulator holds,
  hence whether or not a tick runs): if both deadzone-shaped axes read exactly 0 the
  cursor becomes the simulated \<open>pos\<close>; otherwise each coordinate of the cursor advances
  by \<open>(axis * ball_speed) * frame_dt\<close>, with the frame's delta-time
  \<open>min (now - last_time) 0.25\<close> and not the engine's, and is then clamped with
  \<open>clamp (., margin + radius, dim - margin - radius)\<close>, which puts it within these bounds
  when the lower one does not exceed the upper one.
\<close>

theorem main_frame_controller_cursor:
  "let r = main_frame False fps dz w h now peek io lp;
       st = engine_state (simulation lp);
       ax = fst (peek_axes peek (current_deadzone dz));
       ay = snd (peek_axes peek (current_deadzone dz));
       lo = real_of_int (CANVAS_MARGIN + ball_radius st);
       hi_x = real_of_int (w - CANVAS_MARGIN - ball_radius st);
       hi_y = real_of_int (h - CANVAS_MARGIN - ball_radius st)
   in frame_dt r = min (now - last_time lp) (25 / 100)
    \<and> (ax = 0 \<and> ay = 0 \<longrightarrow> controller_cursor (after r) = pos st)
    \<and> (\<not> (ax = 0 \<and> ay = 0) \<longrightarrow>
         vec_x (controller_cursor (after r))
           = clamp (vec_x (controller_cursor lp) + (ax * ball_speed st) * frame_dt r) lo hi_x
       \<and> vec_y (controller_cursor (after r))
           = clamp (vec_y (controller_cursor lp) + (ay * ball_speed st) * frame_dt r) lo hi_y)
    \<and> (\<not> (ax = 0 \<and> ay = 0) \<and> lo \<le> hi_x \<and> lo \<le> hi_y \<longrightarrow>
         in_bounds (controller_cursor (after r)) w h CANVAS_MARGIN (ball_radius st))"
proof -
  have b: "lo \<le> hi \<Longrightarrow> lo \<le> clamp x lo hi \<and> clamp x lo hi \<le> hi" for x lo hi :: real
    by (rule clamp_in_range)
  show ?thesis
    unfolding Let_def main_frame_fields(1,5) cursor_update_controller in_bounds_def
    using b by simp
qed

text \<open>A frame of 10 ms at an engine rate of 10 Hz runs no tick, and the cursor still moves
  by \<open>700 * 0.01 = 7\<close> pixels.\<close>

theorem main_frame_controller_cursor_witness:
  "fst (peek_axes stick_right (current_deadzone True)) = 1
   \<and> snd (peek_axes stick_right (current_deadzone True)) = 0
   \<and> ticks stick_frame = 0
   \<and> frame_dt stick_frame = 1 / 100
   \<and> vec_x (controller_cursor (after stick_frame)) = 647
   \<and> vec_y (controller_cursor (after stick_frame)) = 360
   \<and> in_bounds (controller_cursor (after stick_frame)) 1280 720 CANVAS_MARGIN 14"
proof -
  have ax: "fst (peek_axes stick_right (current_deadzone True)) = 1"
    "snd (peek_axes stick_right (current_deadzone True)) = 0"
    by (simp_all add: stick_right_def peek_axes_def read_axes_def current_deadzone_def
        apply_deadzone_def RELAXED_DEADZONE_def clamp_def)
  have st: "engine_state (simulation (loop_with 0)) = initial_state"
    "controller_cursor (loop_with 0) = pos initial_state" "last_time (loop_with 0) = 0"
    by (simp_all add: loop_with_def)
  have t: "ticks stick_frame = 0"
    by (simp add: stick_frame_def main_frame_fields loop_with_def engine_dt_def)
  from main_frame_controller_cursor
    [of 10 True 1280 720 "1 / 100" stick_right stick_input "loop_with 0"] t
  show ?thesis
    unfolding Let_def ax st main_frame_fields(1) stick_frame_def
    by (simp add: initial_state_def clamp_def CANVAS_MARGIN_def)
qed

section \<open>The target's velocity after \<open>set_params\<close> and \<open>reset\<close>\<close>

lemma py_int_of_int: "py_int (real_of_int k) = k"
  by (simp add: py_int_def)

lemma clamp_of_int:
  "clamp (real_of_int x) (real_of_int lo) (real_of_int hi)
     = real_of_int (if x < lo then lo else if x > hi then hi else x)"
  by (simp add: clamp_def)

lemma clamped_speed:
  "TARGET_SPEED_PX_S_MIN \<le> py_int (clamp (real_of_int sp) (real_of_int TARGET_SPEED_PX_S_MIN)
                                    (real_of_int TARGET_SPEED_PX_S_MAX))
   \<and> py_int (clamp (real_of_int sp) (real_of_int TARGET_SPEED_PX_S_MIN)
               (real_of_int TARGET_SPEED_PX_S_MAX)) \<le> TARGET_SPEED_PX_S_MAX"
  unfolding clamp_of_int py_int_of_int
  by (simp add: TARGET_SPEED_PX_S_MIN_def TARGET_SPEED_PX_S_MAX_def)

lemma length_squared_scale: "length_squared (scale u k) = length_squared u * (k * k)"
  by (simp add: length_squared_def scale_def algebra_simps)

lemma magnitude_scale_unit:
  assumes "length_squared u = 1"
  shows "sqrt (length_squared (scale u k)) = \<bar>k\<bar>"
  using assms by (simp add: length_squared_scale)

lemma scale_unit_nonzero:
  assumes "length_squared u = 1" "k \<noteq> 0"
  shows "scale u k \<noteq> \<lparr>vec_x = 0, vec_y = 0\<rparr>"
proof
  assume "scale u k = \<lparr>vec_x = 0, vec_y = 0\<rparr>"
  then have "length_squared (scale u k) = 0" by (simp add: length_squared_def)
  with assms show False by (simp add: length_squared_scale)
qed

lemma normalize_unit:
  assumes "0 < length_squared v"
  shows "normalize v = Inr \<lparr>vec_x = vec_x v / sqrt (length_squared v),
                            vec_y = vec_y v / sqrt (length_squared v)\<rparr>"
    and "length_squared \<lparr>vec_x = vec_x v / sqrt (length_squared v),
                         vec_y = vec_y v / sqrt (length_squared v)\<rparr> = 1"
proof -
  let ?l = "sqrt (length_squared v)"
  from assms have l: "0 < ?l" by simp
  then show "normalize v = Inr \<lparr>vec_x = vec_x v / ?l, vec_y = vec_y v / ?l\<rparr>"
    by (simp add: normalize_def Let_def)
  have sq: "?l * ?l = length_squared v" using assms by simp
  have "length_squared \<lparr>vec_x = vec_x v / ?l, vec_y = vec_y v / ?l\<rparr>
          = (vec_x v / ?l) * (vec_x v / ?l) + (vec_y v / ?l) * (vec_y v / ?l)"
    by (simp add: length_squared_def)
  also have "\<dots> = (vec_x v * vec_x v + vec_y v * vec_y v) / (?l * ?l)"
    by (simp only: times_divide_times_eq add_divide_distrib)
  also have "\<dots> = length_squared v / (?l * ?l)"
    by (simp only: length_squared_def)
  also have "\<dots> = length_squared v / length_squared v"
    by (simp only: sq)
  also have "\<dots> = 1" using assms by simp
  finally show "length_squared \<lparr>vec_x = vec_x v / ?l, vec_y = vec_y v / ?l\<rparr> = 1" .
qed

lemma reseed_and_scale_result:
  "\<exists>u. reseed_and_scale v sp = Inr (scale u (real_of_int sp)) \<and> length_squared u = 1
       \<and> (length_squared v < 1 / 10 ^ 9 \<longrightarrow> u = \<lparr>vec_x = 1, vec_y = 0\<rparr>)
       \<and> (\<not> length_squared v < 1 / 10 ^ 9 \<longrightarrow>
            u = \<lparr>vec_x = vec_x v / sqrt (length_squared v),
                 vec_y = vec_y v / sqrt (length_squared v)\<rparr>)"
proof (cases "length_squared v < 1 / 10 ^ 9")
  case True
  have "normalize \<lparr>vec_x = 1, vec_y = 0\<rparr> = Inr \<lparr>vec_x = 1, vec_y = 0\<rparr>"
    by (simp add: normalize_def length_squared_def)
  with True have "reseed_and_scale v sp = Inr (scale \<lparr>vec_x = 1, vec_y = 0\<rparr> (real_of_int sp))"
    by (simp add: reseed_and_scale_def)
  moreover have "length_squared \<lparr>vec_x = 1, vec_y = 0\<rparr> = 1"
    by (simp add: length_squared_def)
  ultimately show ?thesis using True by blast
next
  case False
  then have p: "0 < length_squared v"
    by (smt (verit) zero_less_divide_1_iff zero_less_numeral zero_less_power)
  from False normalize_unit(1) [OF p]
  have "reseed_and_scale v sp
          = Inr (scale \<lparr>vec_x = vec_x v / sqrt (length_squared v),
                        vec_y = vec_y v / sqrt (length_squared v)\<rparr> (real_of_int sp))"
    by (simp add: reseed_and_scale_def)
  with normalize_unit(2) [OF p] False show ?thesis by blast
qed

lemma set_params_result:
  "\<exists>u. set_params t br sz sp =
          Inr (t\<lparr>size_pct := py_int (clamp (real_of_int sz) (real_of_int TARGET_SIZE_PCT_MIN)
                                  (real_of_int TARGET_SIZE_PCT_MAX)),
                speed_px_s := py_int (clamp (real_of_int sp) (real_of_int TARGET_SPEED_PX_S_MIN)
                                  (real_of_int TARGET_SPEED_PX_S_MAX)),
                radius_px := compute_radius
                   (t\<lparr>size_pct := py_int (clamp (real_of_int sz) (real_of_int TARGET_SIZE_PCT_MIN)
                                  (real_of_int TARGET_SIZE_PCT_MAX))\<rparr>) br,
                t_vel := scale u (real_of_int (py_int (clamp (real_of_int sp)
                                  (real_of_int TARGET_SPEED_PX_S_MIN)
                                  (real_of_int TARGET_SPEED_PX_S_MAX))))\<rparr>)
       \<and> length_squared u = 1
       \<and> (length_squared (t_vel t) < 1 / 10 ^ 9 \<longrightarrow> u = \<lparr>vec_x = 1, vec_y = 0\<rparr>)"
proof -
  let ?sp = "py_int (clamp (real_of_int sp) (real_of_int TARGET_SPEED_PX_S_MIN)
                                  (real_of_int TARGET_SPEED_PX_S_MAX))"
  from reseed_and_scale_result [of "t_vel t" ?sp]
  obtain u where u: "reseed_and_scale (t_vel t) ?sp = Inr (scale u (real_of_int ?sp))"
    "length_squared u = 1"
    "length_squared (t_vel t) < 1 / 10 ^ 9 \<longrightarrow> u = \<lparr>vec_x = 1, vec_y = 0\<rparr>"
    by blast
  from u(1) have "set_params t br sz sp = Inr (t\<lparr>size_pct := py_int (clamp (real_of_int sz) (real_of_int TARGET_SIZE_PCT_MIN)
                                  (real_of_int TARGET_SIZE_PCT_MAX)),
                speed_px_s := ?sp,
                radius_px := compute_radius
                   (t\<lparr>size_pct := py_int (clamp (real_of_int sz) (real_of_int TARGET_SIZE_PCT_MIN)
                                  (real_of_int TARGET_SIZE_PCT_MAX))\<rparr>) br,
                t_vel := scale u (real_of_int ?sp)\<rparr>)"
    by (simp add: set_params_def Let_def compute_radius_def)
  with u(2,3) show ?thesis by blast
qed

lemma reset_result:
  "\<exists>t' u. reset t w h margin br rnd = Inr t' \<and> t_vel t' = scale u (real_of_int (speed_px_s t))
       \<and> speed_px_s t' = speed_px_s t \<and> length_squared u = 1
       \<and> u = \<lparr>vec_x = cos (rnd * (2 * pi)), vec_y = sin (rnd * (2 * pi))\<rparr>"
proof -
  let ?v = "\<lparr>vec_x = cos (rnd * (2 * pi)), vec_y = sin (rnd * (2 * pi))\<rparr>"
  have one: "length_squared ?v = 1"
    by (simp add: length_squared_def power2_eq_square [symmetric])
  then have "reseed_and_scale ?v sp = Inr (scale ?v (real_of_int sp))" for sp
    by (simp add: reseed_and_scale_def normalize_def)
  then show ?thesis
    using one by (simp add: reset_def Let_def)
qed

text \<open>
  C8. \<open>set_params\<close> and \<open>reset\<close> never fail. A velocity whose squared length is below
  \<open>1e-9\<close> is replaced by \<open>(1, 0)\<close> before it is normalised and scaled. After \<open>set_params\<close>
  the velocity is a unit vector times \<open>speed_px_s\<close>, which is the requested speed clamped to
  \<open>[60, 420]\<close>: its length is that speed and it is not the zero vector. After \<open>reset\<close> the
  velocity is the unit vector \<open>(cos ang, sin ang)\<close> times the stored \<open>speed_px_s\<close>: its length
  is \<open>|speed_px_s|\<close>, and when the stored speed is a clamped configured speed (within
  \<open>[60, 420]\<close>) its length is that speed and it is not the zero vector.
\<close>

theorem target_velocity_normalized:
  "(\<exists>t' u. set_params t br sz sp = Inr t'
       \<and> speed_px_s t' = py_int (clamp (real_of_int sp) (real_of_int TARGET_SPEED_PX_S_MIN)
                                    (real_of_int TARGET_SPEED_PX_S_MAX))
       \<and> TARGET_SPEED_PX_S_MIN \<le> speed_px_s t' \<and> speed_px_s t' \<le> TARGET_SPEED_PX_S_MAX
       \<and> length_squared u = 1 \<and> t_vel t' = scale u (real_of_int (speed_px_s t'))
       \<and> (length_squared (t_vel t) < 1 / 10 ^ 9 \<longrightarrow> u = \<lparr>vec_x = 1, vec_y = 0\<rparr>)
       \<and> sqrt (length_squared (t_vel t')) = real_of_int (speed_px_s t')
       \<and> t_vel t' \<noteq> \<lparr>vec_x = 0, vec_y = 0\<rparr>)
   \<and> (\<exists>t' u. reset t w h margin br rnd = Inr t'
       \<and> speed_px_s t' = speed_px_s t
       \<and> length_squared u = 1 \<and> t_vel t' = scale u (real_of_int (speed_px_s t))
       \<and> sqrt (length_squared (t_vel t')) = \<bar>real_of_int (speed_px_s t)\<bar>
       \<and> (TARGET_SPEED_PX_S_MIN \<le> speed_px_s t \<and> speed_px_s t \<le> TARGET_SPEED_PX_S_MAX \<longrightarrow>
            sqrt (length_squared (t_vel t')) = real_of_int (speed_px_s t)
          \<and> t_vel t' \<noteq> \<lparr>vec_x = 0, vec_y = 0\<rparr>))
   \<and> (length_squared v < 1 / 10 ^ 9 \<longrightarrow>
         reseed_and_scale v k = Inr (scale \<lparr>vec_x = 1, vec_y = 0\<rparr> (real_of_int k)))"
proof -
  let ?c = "py_int (clamp (real_of_int sp) (real_of_int TARGET_SPEED_PX_S_MIN)
                      (real_of_int TARGET_SPEED_PX_S_MAX))"
  have cpos: "0 < real_of_int ?c"
    using clamped_speed [of sp] by (simp add: TARGET_SPEED_PX_S_MIN_def)
  from set_params_result [of t br sz sp]
  obtain t1 u1 where s: "set_params t br sz sp = Inr t1" "speed_px_s t1 = ?c"
    "t_vel t1 = scale u1 (real_of_int ?c)" "length_squared u1 = 1"
    "length_squared (t_vel t) < 1 / 10 ^ 9 \<longrightarrow> u1 = \<lparr>vec_x = 1, vec_y = 0\<rparr>"
    by force
  have s_mag: "sqrt (length_squared (t_vel t1)) = real_of_int (speed_px_s t1)"
    unfolding s(2,3) using magnitude_scale_unit [OF s(4), of "real_of_int ?c"] cpos by simp
  have s_nz: "t_vel t1 \<noteq> \<lparr>vec_x = 0, vec_y = 0\<rparr>"
    unfolding s(3) using scale_unit_nonzero [OF s(4), of "real_of_int ?c"] cpos by simp
  have first: "\<exists>t' u. set_params t br sz sp = Inr t'
       \<and> speed_px_s t' = ?c
       \<and> TARGET_SPEED_PX_S_MIN \<le> speed_px_s t' \<and> speed_px_s t' \<le> TARGET_SPEED_PX_S_MAX
       \<and> length_squared u = 1 \<and> t_vel t' = scale u (real_of_int (speed_px_s t'))
       \<and> (length_squared (t_vel t) < 1 / 10 ^ 9 \<longrightarrow> u = \<lparr>vec_x = 1, vec_y = 0\<rparr>)
       \<and> sqrt (length_squared (t_vel t')) = real_of_int (speed_px_s t')
       \<and> t_vel t' \<noteq> \<lparr>vec_x = 0, vec_y = 0\<rparr>"
    using s s_mag s_nz clamped_speed [of sp] by (intro exI [of _ t1] exI [of _ u1]) simp
  from reset_result [of t w h margin br rnd]
  obtain t2 u2 where r: "reset t w h margin br rnd = Inr t2"
    "t_vel t2 = scale u2 (real_of_int (speed_px_s t))" "speed_px_s t2 = speed_px_s t"
    "length_squared u2 = 1"
    by blast
  have r_mag: "sqrt (length_squared (t_vel t2)) = \<bar>real_of_int (speed_px_s t)\<bar>"
    unfolding r(2) by (rule magnitude_scale_unit [OF r(4)])
  have r_in: "sqrt (length_squared (t_vel t2)) = real_of_int (speed_px_s t)
          \<and> t_vel t2 \<noteq> \<lparr>vec_x = 0, vec_y = 0\<rparr>"
    if "TARGET_SPEED_PX_S_MIN \<le> speed_px_s t"
  proof -
    from that have p: "0 < real_of_int (speed_px_s t)"
      by (simp add: TARGET_SPEED_PX_S_MIN_def)
    then show ?thesis
      unfolding r(2)
      using magnitude_scale_unit [OF r(4), of "real_of_int (speed_px_s t)"]
        scale_unit_nonzero [OF r(4), of "real_of_int (speed_px_s t)"] by simp
  qed
  have second: "\<exists>t' u. reset t w h margin br rnd = Inr t'
       \<and> speed_px_s t' = speed_px_s t
       \<and> length_squared u = 1 \<and> t_vel t' = scale u (real_of_int (speed_px_s t))
       \<and> sqrt (length_squared (t_vel t')) = \<bar>real_of_int (speed_px_s t)\<bar>
       \<and> (TARGET_SPEED_PX_S_MIN \<le> speed_px_s t \<and> speed_px_s t \<le> TARGET_SPEED_PX_S_MAX \<longrightarrow>
            sqrt (length_squared (t_vel t')) = real_of_int (speed_px_s t)
          \<and> t_vel t' \<noteq> \<lparr>vec_x = 0, vec_y = 0\<rparr>)"
    using r r_mag r_in by (intro exI [of _ t2] exI [of _ u2]) simp
  have third: "length_squared v < 1 / 10 ^ 9 \<longrightarrow>
         reseed_and_scale v k = Inr (scale \<lparr>vec_x = 1, vec_y = 0\<rparr> (real_of_int k))"
    using reseed_and_scale_result [of v k] by auto
  from first second third show ?thesis by blast
qed


text \<open>A target with zero velocity and the default speed gets the velocity
  \<open>(170, 0)\<close> from \<open>set_params\<close>, and moves at 170 px/s after \<open>reset\<close>.\<close>

theorem target_velocity_normalized_witness:
  "length_squared (t_vel zero_vel_target) < 1 / 10 ^ 9
   \<and> TARGET_SPEED_PX_S_MIN \<le> speed_px_s zero_vel_target
   \<and> speed_px_s zero_vel_target \<le> TARGET_SPEED_PX_S_MAX
   \<and> length_squared \<lparr>vec_x = 0, vec_y = 0\<rparr> < 1 / 10 ^ 9
   \<and> (\<exists>t'. set_params zero_vel_target 14 165 170 = Inr t'
          \<and> speed_px_s t' = 170 \<and> t_vel t' = \<lparr>vec_x = 170, vec_y = 0\<rparr>)
   \<and> (\<exists>t'. reset zero_vel_target 1280 720 12 14 0 = Inr t'
          \<and> sqrt (length_squared (t_vel t')) = 170
          \<and> t_vel t' \<noteq> \<lparr>vec_x = 0, vec_y = 0\<rparr>)
   \<and> reseed_and_scale \<lparr>vec_x = 0, vec_y = 0\<rparr> 170 = Inr \<lparr>vec_x = 170, vec_y = 0\<rparr>"
proof -
  have z: "length_squared (t_vel zero_vel_target) < 1 / 10 ^ 9"
    "length_squared \<lparr>vec_x = 0, vec_y = 0\<rparr> < 1 / 10 ^ 9"
    by (simp_all add: zero_vel_target_def length_squared_def)
  have sp: "TARGET_SPEED_PX_S_MIN \<le> speed_px_s zero_vel_target"
    "speed_px_s zero_vel_target \<le> TARGET_SPEED_PX_S_MAX"
    "speed_px_s zero_vel_target = 170"
    by (simp_all add: zero_vel_target_def TargetState_default_def TARGET_SPEED_PX_S_DEFAULT_def
        TARGET_SPEED_PX_S_MIN_def TARGET_SPEED_PX_S_MAX_def)
  have c: "py_int (clamp (real_of_int 170) (real_of_int TARGET_SPEED_PX_S_MIN)
             (real_of_int TARGET_SPEED_PX_S_MAX)) = 170"
    by (simp add: py_int_def clamp_def TARGET_SPEED_PX_S_MIN_def TARGET_SPEED_PX_S_MAX_def)
  have sc: "scale \<lparr>vec_x = 1, vec_y = 0\<rparr> (real_of_int 170) = \<lparr>vec_x = 170, vec_y = 0\<rparr>"
    by (simp add: scale_def)
  note t = target_velocity_normalized
    [of zero_vel_target 14 165 170 1280 720 12 0 "\<lparr>vec_x = 0, vec_y = 0\<rparr>" 170]
  from t z(1) c sc
  have a: "\<exists>t'. set_params zero_vel_target 14 165 170 = Inr t'
          \<and> speed_px_s t' = 170 \<and> t_vel t' = \<lparr>vec_x = 170, vec_y = 0\<rparr>"
    by force
  from t sp
  have b: "\<exists>t'. reset zero_vel_target 1280 720 12 14 0 = Inr t'
          \<and> sqrt (length_squared (t_vel t')) = 170
          \<and> t_vel t' \<noteq> \<lparr>vec_x = 0, vec_y = 0\<rparr>"
    by force
  from t z(2) sc
  have d: "reseed_and_scale \<lparr>vec_x = 0, vec_y = 0\<rparr> 170 = Inr \<lparr>vec_x = 170, vec_y = 0\<rparr>"
    by simp
  from z sp(1,2) a b d show ?thesis by blast
qed

end
